theory Spec2Isabelle
  imports Complex_Main
begin

section \<open>Domain constants (constants.ts)\<close>

text \<open>
  \<^verbatim>\<open>export enum ApplicantStatus { PENDING = "pending", ACCEPTED = "accepted",
                                ON_THE_WAY = "on_the_way", DONE = "done" }
  export enum OfferStatus { AVAILABLE = "available", CLOSED = "closed" }\<close>
  Both are string enums: each member stands for the string on its right.
\<close>

datatype ApplicantStatus = PENDING | ACCEPTED | ON_THE_WAY | DONE

fun ApplicantStatus_value :: "ApplicantStatus \<Rightarrow> string" where
  "ApplicantStatus_value PENDING = ''pending''"
| "ApplicantStatus_value ACCEPTED = ''accepted''"
| "ApplicantStatus_value ON_THE_WAY = ''on_the_way''"
| "ApplicantStatus_value DONE = ''done''"

datatype OfferStatus = AVAILABLE | CLOSED

fun OfferStatus_value :: "OfferStatus \<Rightarrow> string" where
  "OfferStatus_value AVAILABLE = ''available''"
| "OfferStatus_value CLOSED = ''closed''"

section \<open>Request bodies and their validation\<close>

text \<open>
  The value \<^verbatim>\<open>await request.json()\<close> yields, and the values read out of it by
  destructuring. \<open>JUndefined\<close> is what reading an absent property gives.
\<close>

datatype json =
    JUndefined
  | JNull
  | JBool bool
  | JNumber real
  | JString string
  | JArray "json list"
  | JObject "(string \<times> json) list"

text \<open>
  Reading property \<open>k\<close> of a value that is neither \<^verbatim>\<open>null\<close> nor \<^verbatim>\<open>undefined\<close>
  (destructuring those two throws, which the handlers treat before calling this). The
  properties the handlers read exist on parsed objects only. The association list holds
  the object's own properties, one entry per key.
\<close>

fun get_prop :: "json \<Rightarrow> string \<Rightarrow> json" where
  "get_prop (JObject kvs) k = (case map_of kvs k of None \<Rightarrow> JUndefined | Some v \<Rightarrow> v)"
| "get_prop _ k = JUndefined"

text \<open>One entry of the list handed to \<^verbatim>\<open>respondWithBadRequest\<close>.\<close>

record error_item =
  message :: string
  path :: string

text \<open>The type name the schema library reports for a value that has the wrong type.\<close>

fun received_type :: "json \<Rightarrow> string" where
  "received_type JUndefined = ''undefined''"
| "received_type JNull = ''null''"
| "received_type (JBool b) = ''boolean''"
| "received_type (JNumber x) = ''number''"
| "received_type (JString s) = ''string''"
| "received_type (JArray xs) = ''array''"
| "received_type (JObject kvs) = ''object''"

text \<open>
  \<^verbatim>\<open>z.string({ required_error })\<close> and \<^verbatim>\<open>z.number({ required_error })\<close> at one key:
  the issues they raise, already mapped to \<^verbatim>\<open>{ message, path: it.path[0] }\<close>.
\<close>

fun z_string :: "string \<Rightarrow> string \<Rightarrow> json \<Rightarrow> error_item list" where
  "z_string required_error key (JString s) = []"
| "z_string required_error key JUndefined = [\<lparr>message = required_error, path = key\<rparr>]"
| "z_string required_error key v =
     [\<lparr>message = ''Expected string, received '' @ received_type v, path = key\<rparr>]"

fun z_number :: "string \<Rightarrow> string \<Rightarrow> json \<Rightarrow> error_item list" where
  "z_number required_error key (JNumber x) = []"
| "z_number required_error key JUndefined = [\<lparr>message = required_error, path = key\<rparr>]"
| "z_number required_error key v =
     [\<lparr>message = ''Expected number, received '' @ received_type v, path = key\<rparr>]"

text \<open>\<^verbatim>\<open>z.string().min(1, msg)\<close> on a route parameter, which is always a string.\<close>

definition z_string_min1 :: "string \<Rightarrow> string \<Rightarrow> string \<Rightarrow> error_item list" where
  "z_string_min1 msg key s = (if length s < 1 then [\<lparr>message = msg, path = key\<rparr>] else [])"

text \<open>
  The seven payload columns of an application, as the schema accepts them (\<open>note_text\<close>
  is column \<^verbatim>\<open>note\<close>).
\<close>

record payload =
  note_text :: string
  destination_location :: string
  pickup_location :: string
  pickup_latitude :: real
  pickup_longitude :: real
  destination_latitude :: real
  destination_longitude :: real

fun string_of :: "json \<Rightarrow> string" where
  "string_of (JString s) = s"
| "string_of _ = []"

fun number_of :: "json \<Rightarrow> real" where
  "number_of (JNumber x) = x"
| "number_of _ = 0"

text \<open>
  The schema of POST and PATCH, applied to the destructured body and the route parameter.
  The issues come in the order of the schema's keys. On success the handlers go on with
  the destructured variables themselves; the schema transforms nothing, so these are the
  strings and numbers collected in the \<open>payload\<close>.
\<close>

definition schema_issues :: "json \<Rightarrow> string \<Rightarrow> error_item list" where
  "schema_issues body offer_id =
     z_string ''Catatan untuk pemesanan tidak boleh kosong!'' ''note'' (get_prop body ''note'')
   @ z_string ''Lokasi tujuan tidak boleh kosong!'' ''destination_location''
       (get_prop body ''destination_location'')
   @ z_string ''Lokasi penjemputan tidak boleh kosong!'' ''pickup_location''
       (get_prop body ''pickup_location'')
   @ z_number ''Latitude lokasi penjemputan tidak boleh kosong!'' ''pickup_latitude''
       (get_prop body ''pickup_latitude'')
   @ z_number ''Longitude lokasi penjemputan tidak boleh kosong!'' ''pickup_longitude''
       (get_prop body ''pickup_longitude'')
   @ z_number ''Latitude lokasi tujuan tidak boleh kosong!'' ''destination_latitude''
       (get_prop body ''destination_latitude'')
   @ z_number ''Longitude lokasi tujuan tidak boleh kosong!'' ''destination_longitude''
       (get_prop body ''destination_longitude'')
   @ z_string_min1 ''Offer ID tidak boleh kosong!'' ''offer_id'' offer_id"

definition destructured :: "json \<Rightarrow> payload" where
  "destructured body =
     \<lparr>note_text = string_of (get_prop body ''note''),
      destination_location = string_of (get_prop body ''destination_location''),
      pickup_location = string_of (get_prop body ''pickup_location''),
      pickup_latitude = number_of (get_prop body ''pickup_latitude''),
      pickup_longitude = number_of (get_prop body ''pickup_longitude''),
      destination_latitude = number_of (get_prop body ''destination_latitude''),
      destination_longitude = number_of (get_prop body ''destination_longitude'')\<rparr>"

definition safeParse :: "json \<Rightarrow> string \<Rightarrow> error_item list + payload" where
  "safeParse body offer_id =
     (let errors = schema_issues body offer_id
      in if errors = [] then Inr (destructured body) else Inl errors)"

text \<open>The schema of DELETE and the first schema of PATCH: the route parameter alone.\<close>

definition validate_offerId :: "string \<Rightarrow> error_item list" where
  "validate_offerId offerId = z_string_min1 ''ID penawaran tidak boleh kosong!'' ''offerId'' offerId"

section \<open>Requests, credentials and responses\<close>

record authorization =
  userId :: string
  role :: string

text \<open>
  A request as the handlers see it: \<open>json_body\<close> is \<open>None\<close> when
  \<^verbatim>\<open>request.json()\<close> rejects (no parsable body), \<open>bearer\<close> is the claim its
  credential stands for.
\<close>

record NextRequest =
  json_body :: "json option"
  bearer :: "authorization option"

text \<open>
  Modelled from the spec: \<^verbatim>\<open>verifyBearerToken\<close> of lib/bearer-token, which is not among
  the sources. The auth collaborator supplies \<^verbatim>\<open>{ userId, role }\<close> given a bearer
  credential, an opaque verified claim; a missing or invalid credential gives nothing.
\<close>

definition verifyBearerToken :: "NextRequest \<Rightarrow> authorization option" where
  "verifyBearerToken request = bearer request"

text \<open>
  Modelled from the spec: \<^verbatim>\<open>APIResponse\<close> of lib/models/api-response, which is not
  among the sources. Every constructor is one \<^verbatim>\<open>respondWith...\<close> call and builds the
  uniform envelope \<^verbatim>\<open>{ success, data | errors }\<close>; the status codes are 200 success,
  400 validation, 401 unauthenticated, 403 forbidden, 404 not found, 409 conflict and
  500 server error.
\<close>

datatype 'a APIResponse =
    respondWithSuccess 'a
  | respondWithBadRequest "error_item list"
  | respondWithUnauthorized
  | respondWithForbidden string
  | respondWithNotFound string
  | respondWithConflict string
  | respondWithServerError

fun status_code :: "'a APIResponse \<Rightarrow> nat" where
  "status_code (respondWithSuccess d) = 200"
| "status_code (respondWithBadRequest es) = 400"
| "status_code respondWithUnauthorized = 401"
| "status_code (respondWithForbidden m) = 403"
| "status_code (respondWithNotFound m) = 404"
| "status_code (respondWithConflict m) = 409"
| "status_code respondWithServerError = 500"

text \<open>
  \<^verbatim>\<open>interface POSTResponse { success: boolean; id: string }\<close>; the interfaces
  \<^verbatim>\<open>DELETEResponse\<close> and \<^verbatim>\<open>PATCHResponse\<close> have the same two members.
\<close>

record POSTResponse =
  success :: bool
  id_returned :: string

type_synonym DELETEResponse = POSTResponse
type_synonym PATCHResponse = POSTResponse

section \<open>The store\<close>

text \<open>
  The columns of table \<^verbatim>\<open>offers\<close> that the route reads or writes. \<open>offer_status\<close> is
  stored and compared as a plain string; \<open>available_until\<close> and the store's clock
  \<^verbatim>\<open>NOW()\<close> are points on one time line.
\<close>

record offers_row =
  id_offer :: string
  offer_status :: string
  available_until :: int

text \<open>A row of table \<^verbatim>\<open>offer_applicants\<close>: the payload columns and four more.\<close>

record offer_applicants_row = payload +
  id_applicant :: string
  applicant_status :: ApplicantStatus
  customer :: string
  offer :: string

text \<open>
  The table declarations are not among the sources. Whether the store declares
  \<^verbatim>\<open>(customer, offer)\<close> unique on \<^verbatim>\<open>offer_applicants\<close> is therefore a parameter of
  the store, \<open>unique_customer_offer\<close>: when it is set, an insert that would make a second
  row for the pair throws instead.
\<close>

record database =
  offers :: "offers_row list"
  offer_applicants :: "offer_applicants_row list"
  unique_customer_offer :: bool

datatype error = NoResultError | UniqueViolation

text \<open>\<^verbatim>\<open>executeTakeFirst\<close>: the first row of the result, \<^verbatim>\<open>undefined\<close> (\<open>None\<close>) if none.\<close>

fun executeTakeFirst :: "'r list \<Rightarrow> 'r option" where
  "executeTakeFirst [] = None"
| "executeTakeFirst (r # rs) = Some r"

text \<open>
  \<^verbatim>\<open>executeTakeFirstOrThrow\<close>: as above, but throws when there is no row. The result
  keeps the shape "row or \<^verbatim>\<open>undefined\<close>", since the caller still tests it with
  \<^verbatim>\<open>!result\<close>.
\<close>

definition executeTakeFirstOrThrow :: "'r list \<Rightarrow> error + 'r option" where
  "executeTakeFirstOrThrow rows =
     (case executeTakeFirst rows of None \<Rightarrow> Inl NoResultError | Some r \<Rightarrow> Inr (Some r))"

text \<open>
  \<^verbatim>\<open>selectFrom("offers").select(["id", "offer_status"]).where("id", "=", offer_id)
    .where("offer_status", "=", "available").where("available_until", ">", NOW())\<close>
\<close>

definition select_available_offer :: "database \<Rightarrow> int \<Rightarrow> string \<Rightarrow> offers_row list" where
  "select_available_offer db now offer_id =
     filter (\<lambda>r. id_offer r = offer_id \<and> offer_status r = ''available'' \<and> now < available_until r)
       (offers db)"

text \<open>
  \<^verbatim>\<open>selectFrom("offer_applicants").where("customer", "=", userId).where("offer", "=", offer_id)\<close>
\<close>

definition select_application :: "database \<Rightarrow> string \<Rightarrow> string \<Rightarrow> offer_applicants_row list" where
  "select_application db user offer_id =
     filter (\<lambda>r. customer r = user \<and> offer r = offer_id) (offer_applicants db)"

text \<open>
  \<^verbatim>\<open>insertInto("offer_applicants").values({ applicant_status: ApplicantStatus.PENDING, note, ...,
    customer: authorization.userId, offer: offer_id }).returning("id")\<close>.
  \<open>new_id\<close> is the id the store gives the new row. The result is the list of returned ids
  and the store after the insert.
\<close>

definition insert_application ::
  "database \<Rightarrow> string \<Rightarrow> payload \<Rightarrow> string \<Rightarrow> string \<Rightarrow> error + (string list \<times> database)" where
  "insert_application db new_id values user offer_id =
     (if unique_customer_offer db \<and> select_application db user offer_id \<noteq> []
      then Inl UniqueViolation
      else Inr ([new_id],
        db\<lparr>offer_applicants := offer_applicants db @
          [payload.extend values
            \<lparr>id_applicant = new_id, applicant_status = PENDING,
             customer = user, offer = offer_id\<rparr>]\<rparr>))"

text \<open>
  \<^verbatim>\<open>updateTable("offers").set({ offer_status: "on_progress" }).where("id", "=", offer_id)\<close>
\<close>

definition set_on_progress :: "database \<Rightarrow> string \<Rightarrow> database" where
  "set_on_progress db offer_id =
     db\<lparr>offers := map (\<lambda>r. if id_offer r = offer_id then r\<lparr>offer_status := ''on_progress''\<rparr> else r)
                      (offers db)\<rparr>"

text \<open>
  \<^verbatim>\<open>deleteFrom("offer_applicants").where("customer", "=", userId).where("offer", "=", offerId)
    .returning("id")\<close>: every matching row goes; the ids of the deleted rows come back.
\<close>

definition delete_application :: "database \<Rightarrow> string \<Rightarrow> string \<Rightarrow> string list \<times> database" where
  "delete_application db user offerId =
     (map id_applicant (select_application db user offerId),
      db\<lparr>offer_applicants :=
           filter (\<lambda>r. \<not> (customer r = user \<and> offer r = offerId)) (offer_applicants db)\<rparr>)"

text \<open>
  \<^verbatim>\<open>updateTable("offer_applicants").set({ note, destination_location, pickup_location,
    pickup_latitude, pickup_longitude, destination_latitude, destination_longitude })
    .where("id", "=", existingApplication.id).execute()\<close>.
  The result of \<^verbatim>\<open>execute()\<close> is an array with one entry, the number of updated rows.
\<close>

definition set_payload :: "offer_applicants_row \<Rightarrow> payload \<Rightarrow> offer_applicants_row" where
  "set_payload r v =
     r\<lparr>note_text := note_text v,
       destination_location := destination_location v,
       pickup_location := pickup_location v,
       pickup_latitude := pickup_latitude v,
       pickup_longitude := pickup_longitude v,
       destination_latitude := destination_latitude v,
       destination_longitude := destination_longitude v\<rparr>"

definition update_application :: "database \<Rightarrow> string \<Rightarrow> payload \<Rightarrow> nat list \<times> database" where
  "update_application db app_id v =
     ([length (filter (\<lambda>r. id_applicant r = app_id) (offer_applicants db))],
      db\<lparr>offer_applicants :=
           map (\<lambda>r. if id_applicant r = app_id then set_payload r v else r) (offer_applicants db)\<rparr>)"

text \<open>\<^verbatim>\<open>!result\<close> on an array: every array is truthy, the empty one too.\<close>

definition not_array :: "'a list \<Rightarrow> bool" where
  "not_array result = False"

section \<open>The handlers of route offers/[offer_id]/apply\<close>

text \<open>
  Each handler takes the store and returns the response with the store it leaves behind.
  Everything thrown inside the handler's \<^verbatim>\<open>try\<close> ends in
  \<^verbatim>\<open>respondWithServerError\<close>. \<open>now\<close> is the store's clock when the offer is
  selected.
\<close>

definition POST ::
  "database \<Rightarrow> int \<Rightarrow> string \<Rightarrow> NextRequest \<Rightarrow> string \<Rightarrow> POSTResponse APIResponse \<times> database" where
  "POST db now new_id request offer_id =
     (case json_body request of
        None \<Rightarrow> (respondWithServerError, db)
      | Some body \<Rightarrow>
         (if body = JNull \<or> body = JUndefined then (respondWithServerError, db)
          else
           (case safeParse body offer_id of
              Inl errors \<Rightarrow> (respondWithBadRequest errors, db)
            | Inr data \<Rightarrow>
               (case verifyBearerToken request of
                  None \<Rightarrow> (respondWithUnauthorized, db)
                | Some authorization \<Rightarrow>
                   (if role authorization \<noteq> ''customer''
                    then (respondWithForbidden
                            ''Anda tidak memiliki akses untuk melakukan aksi ini!'', db)
                    else
                     (case executeTakeFirst (select_available_offer db now offer_id) of
                        None \<Rightarrow>
                          (respondWithConflict ''Offer tidak tersedia atau sudah berakhir!'', db)
                      | Some singleOffer \<Rightarrow>
                         (case executeTakeFirst
                                 (select_application db (userId authorization) offer_id) of
                            Some existingApplication \<Rightarrow>
                              (respondWithConflict
                                 ''Anda sudah mengajukan aplikasi untuk offer ini!'', db)
                          | None \<Rightarrow>
                             (case insert_application db new_id data
                                     (userId authorization) offer_id of
                                Inl e \<Rightarrow> (respondWithServerError, db)
                              | Inr (returned, db1) \<Rightarrow>
                                 (case executeTakeFirst returned of
                                    None \<Rightarrow> (respondWithServerError, db1)
                                  | Some result \<Rightarrow>
                                     (respondWithSuccess
                                        \<lparr>success = True, id_returned = result\<rparr>,
                                      set_on_progress db1 offer_id))))))))))"

definition DELETE ::
  "database \<Rightarrow> NextRequest \<Rightarrow> string \<Rightarrow> DELETEResponse APIResponse \<times> database" where
  "DELETE db request offerId =
     (let validate = validate_offerId offerId in
      if validate \<noteq> [] then (respondWithBadRequest validate, db)
      else
       (case verifyBearerToken request of
          None \<Rightarrow> (respondWithUnauthorized, db)
        | Some authorization \<Rightarrow>
           (if role authorization \<noteq> ''customer''
            then (respondWithForbidden
                    ''Anda tidak memiliki akses untuk melakukan aksi ini!'', db)
            else
             (case delete_application db (userId authorization) offerId of
                (returned, db1) \<Rightarrow>
                 (case executeTakeFirstOrThrow returned of
                    Inl e \<Rightarrow> (respondWithServerError, db1)
                  | Inr None \<Rightarrow>
                     (respondWithConflict
                        ''Tidak ada data yang dihapus karena tidak ada aplikasi yang ditemukan.'',
                      db1)
                  | Inr (Some result) \<Rightarrow>
                     (respondWithSuccess \<lparr>success = True, id_returned = result\<rparr>, db1))))))"

text \<open>
  PATCH has no \<^verbatim>\<open>return\<close> after the update: the response is \<open>None\<close> where the
  function runs off its end and so returns \<^verbatim>\<open>undefined\<close>.
\<close>

definition PATCH ::
  "database \<Rightarrow> NextRequest \<Rightarrow> string \<Rightarrow> PATCHResponse APIResponse option \<times> database" where
  "PATCH db request offerId =
     (let validate = validate_offerId offerId in
      if validate \<noteq> [] then (Some (respondWithBadRequest validate), db)
      else
       (case verifyBearerToken request of
          None \<Rightarrow> (Some respondWithUnauthorized, db)
        | Some authorization \<Rightarrow>
           (case json_body request of
              None \<Rightarrow> (Some respondWithServerError, db)
            | Some body \<Rightarrow>
               (if body = JNull \<or> body = JUndefined then (Some respondWithServerError, db)
                else
                 (case safeParse body offerId of
                    Inl errors \<Rightarrow> (Some (respondWithBadRequest errors), db)
                  | Inr data \<Rightarrow>
                     (if role authorization \<noteq> ''customer''
                      then (Some (respondWithForbidden
                                    ''Anda tidak memiliki akses untuk melakukan aksi ini!''), db)
                      else
                       (case executeTakeFirst
                               (select_application db (userId authorization) offerId) of
                          None \<Rightarrow> (Some (respondWithNotFound ''Aplikasi tidak ditemukan.''), db)
                        | Some existingApplication \<Rightarrow>
                           (case update_application db (id_applicant existingApplication) data of
                              (result, db1) \<Rightarrow>
                               (if not_array result
                                then (Some (respondWithConflict ''Gagal memperbarui aplikasi.''),
                                      db1)
                                else (None, db1))))))))))"

section \<open>The chat client's topics (chats/[userId]/client)\<close>

text \<open>
  \<^verbatim>\<open>getPrefixedTopic\<close> of lib/utils is not among the sources; it is a parameter. The
  ids are strings, and a template literal splices a string in as it is.
\<close>

definition mqttChatMessagesSubTopic :: "(string \<Rightarrow> string) \<Rightarrow> string \<Rightarrow> string \<Rightarrow> string" where
  "mqttChatMessagesSubTopic getPrefixedTopic authenticatedUser toUser =
     getPrefixedTopic (''chat-messages/'' @ toUser @ ''-'' @ authenticatedUser)"

definition mqttChatMessagesPubTopic :: "(string \<Rightarrow> string) \<Rightarrow> string \<Rightarrow> string \<Rightarrow> string" where
  "mqttChatMessagesPubTopic getPrefixedTopic authenticatedUser toUser =
     getPrefixedTopic (''chat-messages/'' @ authenticatedUser @ ''-'' @ toUser)"

definition mqttChatRoomsPubTopic :: "(string \<Rightarrow> string) \<Rightarrow> string \<Rightarrow> string \<Rightarrow> string" where
  "mqttChatRoomsPubTopic getPrefixedTopic authenticatedUser toUser =
     getPrefixedTopic (''chat-rooms/'' @ toUser)"

text \<open>
  The topics the client subscribes to (the effect on \<^verbatim>\<open>mqttClient\<close>) and those it
  publishes to (\<^verbatim>\<open>onSuccess\<close> of the create mutation), in the order of the calls.
\<close>

definition subscribed :: "(string \<Rightarrow> string) \<Rightarrow> string \<Rightarrow> string \<Rightarrow> string list" where
  "subscribed getPrefixedTopic authenticatedUser toUser =
     [mqttChatMessagesSubTopic getPrefixedTopic authenticatedUser toUser]"

definition published :: "(string \<Rightarrow> string) \<Rightarrow> string \<Rightarrow> string \<Rightarrow> string list" where
  "published getPrefixedTopic authenticatedUser toUser =
     [mqttChatMessagesPubTopic getPrefixedTopic authenticatedUser toUser,
      mqttChatRoomsPubTopic getPrefixedTopic authenticatedUser toUser]"

section \<open>POST, one store operation at a time\<close>

text \<open>
  Every \<^verbatim>\<open>await database...execute...()\<close> is one statement run by the store; between
  two of them the handlers of other requests may run. \<open>POST_pc\<close> is the point a call of
  POST has reached: about to run one of its four statements (with the local variables
  it still needs), or done with a response.
\<close>

datatype POST_pc =
    at_select_offer payload authorization
  | at_select_application payload authorization
  | at_insert payload authorization
  | at_update string
  | responded "POSTResponse APIResponse"

text \<open>The part of POST before its first statement on the store.\<close>

definition POST_enter :: "NextRequest \<Rightarrow> string \<Rightarrow> POST_pc" where
  "POST_enter request offer_id =
     (case json_body request of
        None \<Rightarrow> responded respondWithServerError
      | Some body \<Rightarrow>
         (if body = JNull \<or> body = JUndefined then responded respondWithServerError
          else
           (case safeParse body offer_id of
              Inl errors \<Rightarrow> responded (respondWithBadRequest errors)
            | Inr data \<Rightarrow>
               (case verifyBearerToken request of
                  None \<Rightarrow> responded respondWithUnauthorized
                | Some authorization \<Rightarrow>
                   (if role authorization \<noteq> ''customer''
                    then responded (respondWithForbidden
                           ''Anda tidak memiliki akses untuk melakukan aksi ini!'')
                    else at_select_offer data authorization)))))"

text \<open>One statement of POST on the store, and what the handler does with its result.\<close>

fun POST_step :: "int \<Rightarrow> string \<Rightarrow> string \<Rightarrow> POST_pc \<Rightarrow> database \<Rightarrow> POST_pc \<times> database" where
  "POST_step now new_id offer_id (at_select_offer data authorization) db =
     (case executeTakeFirst (select_available_offer db now offer_id) of
        None \<Rightarrow> (responded (respondWithConflict ''Offer tidak tersedia atau sudah berakhir!''), db)
      | Some singleOffer \<Rightarrow> (at_select_application data authorization, db))"
| "POST_step now new_id offer_id (at_select_application data authorization) db =
     (case executeTakeFirst (select_application db (userId authorization) offer_id) of
        Some existingApplication \<Rightarrow>
          (responded (respondWithConflict ''Anda sudah mengajukan aplikasi untuk offer ini!''), db)
      | None \<Rightarrow> (at_insert data authorization, db))"
| "POST_step now new_id offer_id (at_insert data authorization) db =
     (case insert_application db new_id data (userId authorization) offer_id of
        Inl e \<Rightarrow> (responded respondWithServerError, db)
      | Inr (returned, db1) \<Rightarrow>
         (case executeTakeFirst returned of
            None \<Rightarrow> (responded respondWithServerError, db1)
          | Some result \<Rightarrow> (at_update result, db1)))"
| "POST_step now new_id offer_id (at_update result) db =
     (responded (respondWithSuccess \<lparr>success = True, id_returned = result\<rparr>),
      set_on_progress db offer_id)"
| "POST_step now new_id offer_id (responded response) db = (responded response, db)"

text \<open>
  Two calls of POST on the same offer, run on one store. The schedule says whose statement
  the store runs next: \<open>True\<close> the first call's, \<open>False\<close> the second's. \<open>id1\<close> and \<open>id2\<close>
  are the ids the store would give to the rows the calls insert.
\<close>

fun interleave ::
  "int \<Rightarrow> string \<Rightarrow> string \<Rightarrow> string \<Rightarrow> bool list \<Rightarrow> POST_pc \<times> POST_pc \<times> database
     \<Rightarrow> POST_pc \<times> POST_pc \<times> database" where
  "interleave now offer_id id1 id2 [] state = state"
| "interleave now offer_id id1 id2 (True # schedule) (pc1, pc2, db) =
     (case POST_step now id1 offer_id pc1 db of
        (pc1', db') \<Rightarrow> interleave now offer_id id1 id2 schedule (pc1', pc2, db'))"
| "interleave now offer_id id1 id2 (False # schedule) (pc1, pc2, db) =
     (case POST_step now id2 offer_id pc2 db of
        (pc2', db') \<Rightarrow> interleave now offer_id id1 id2 schedule (pc1, pc2', db'))"

section \<open>Well-formed calls\<close>

text \<open>
  A call that passes every check made before the store is touched: the body parses to a
  value other than \<^verbatim>\<open>null\<close>, the schema raises no issue, and the credential is that
  of \<open>user\<close> in role customer.
\<close>

definition valid_customer_call :: "NextRequest \<Rightarrow> string \<Rightarrow> string \<Rightarrow> bool" where
  "valid_customer_call request offer_id user =
     ((case json_body request of
         None \<Rightarrow> False
       | Some body \<Rightarrow> body \<noteq> JNull \<and> body \<noteq> JUndefined \<and> schema_issues body offer_id = [])
      \<and> bearer request = Some \<lparr>userId = user, role = ''customer''\<rparr>)"

section \<open>Sample data\<close>

text \<open>
  A store with one available offer \<open>''O''\<close>, open until time 100, and requests of
  customers with a payload the schema accepts.
\<close>

definition offer_O :: offers_row where
  "offer_O = \<lparr>id_offer = ''O'', offer_status = ''available'', available_until = 100\<rparr>"

definition store_O :: database where
  "store_O = \<lparr>offers = [offer_O], offer_applicants = [], unique_customer_offer = False\<rparr>"

definition body_ok :: json where
  "body_ok = JObject
     [(''note'', JString ''two bags''),
      (''destination_location'', JString ''Gate B''),
      (''pickup_location'', JString ''Gate A''),
      (''pickup_latitude'', JNumber 1),
      (''pickup_longitude'', JNumber 2),
      (''destination_latitude'', JNumber 3),
      (''destination_longitude'', JNumber 4)]"

definition request_of :: "string \<Rightarrow> NextRequest" where
  "request_of user =
     \<lparr>json_body = Some body_ok, bearer = Some \<lparr>userId = user, role = ''customer''\<rparr>\<rparr>"

text \<open>
  The same store after customer \<open>''A''\<close> has applied, the application in a given status.
\<close>

definition application_A :: "ApplicantStatus \<Rightarrow> offer_applicants_row" where
  "application_A st =
     \<lparr>note_text = ''one bag'', destination_location = ''Hall 2'', pickup_location = ''Hall 1'',
      pickup_latitude = 5, pickup_longitude = 6, destination_latitude = 7,
      destination_longitude = 8, id_applicant = ''app-A'', applicant_status = st,
      customer = ''A'', offer = ''O''\<rparr>"

definition store_applied :: "ApplicantStatus \<Rightarrow> database" where
  "store_applied st =
     \<lparr>offers = [offer_O\<lparr>offer_status := ''on_progress''\<rparr>],
      offer_applicants = [application_A st], unique_customer_offer = False\<rparr>"

text \<open>
  The application that a successful POST of \<open>request_of user\<close> on \<open>''O''\<close> inserts, and the
  store it leaves when applied to \<open>store_O\<close>.
\<close>

definition application_of :: "string \<Rightarrow> string \<Rightarrow> offer_applicants_row" where
  "application_of user new_id =
     payload.extend (destructured body_ok)
       \<lparr>id_applicant = new_id, applicant_status = PENDING, customer = user, offer = ''O''\<rparr>"

definition store_after :: "string \<Rightarrow> string \<Rightarrow> database" where
  "store_after user new_id =
     \<lparr>offers = [offer_O\<lparr>offer_status := ''on_progress''\<rparr>],
      offer_applicants = [application_of user new_id], unique_customer_offer = False\<rparr>"

section \<open>Facts about the store's queries\<close>

lemma executeTakeFirst_None: "executeTakeFirst rows = None \<longleftrightarrow> rows = []"
  by (cases rows) simp_all

lemma executeTakeFirst_Some: "executeTakeFirst rows = Some r \<longleftrightarrow> (\<exists>rest. rows = r # rest)"
  by (cases rows) auto

lemma executeTakeFirstOrThrow_row: "executeTakeFirstOrThrow rows \<noteq> Inr None"
  by (simp add: executeTakeFirstOrThrow_def split: option.splits)

lemma schema_issues_body_ok: "offer_id \<noteq> [] \<Longrightarrow> schema_issues body_ok offer_id = []"
  by (simp add: schema_issues_def body_ok_def z_string_min1_def)

lemma safeParse_body_ok:
  "offer_id \<noteq> [] \<Longrightarrow> safeParse body_ok offer_id = Inr (destructured body_ok)"
  by (simp add: safeParse_def schema_issues_body_ok)

lemma body_ok_object: "body_ok \<noteq> JNull \<and> body_ok \<noteq> JUndefined"
  by (simp add: body_ok_def)

section \<open>Withdrawing an application (DELETE)\<close>

text \<open>
  Claim C9. In DELETE, when the caller has no application row on the offer, the delete
  query throws and the handler answers with the server error (500), the store untouched;
  and for no store, request and offer id at all does DELETE answer with a conflict, so the
  branch that reports "no application found" is dead.
\<close>

theorem DELETE_absent_application_is_server_error:
  "(\<forall>m. fst (DELETE db request offerId) \<noteq> respondWithConflict m) \<and>
   (validate_offerId offerId = [] \<and> bearer request = Some a \<and> role a = ''customer'' \<and>
    select_application db (userId a) offerId = []
    \<longrightarrow> DELETE db request offerId = (respondWithServerError, db))"
proof (intro conjI allI impI)
  fix m
  show "fst (DELETE db request offerId) \<noteq> respondWithConflict m"
    using executeTakeFirstOrThrow_row
    by (auto simp: DELETE_def Let_def delete_application_def split: option.splits sum.splits)
next
  assume h: "validate_offerId offerId = [] \<and> bearer request = Some a \<and> role a = ''customer'' \<and>
    select_application db (userId a) offerId = []"
  then have "filter (\<lambda>r. \<not> (customer r = userId a \<and> offer r = offerId)) (offer_applicants db)
      = offer_applicants db"
    by (simp add: select_application_def filter_empty_conv)
  with h show "DELETE db request offerId = (respondWithServerError, db)"
    by (simp add: DELETE_def verifyBearerToken_def delete_application_def
        executeTakeFirstOrThrow_def)
qed

theorem DELETE_absent_application_is_server_error_witness:
  "(\<forall>m. fst (DELETE store_O (request_of ''A'') ''O'') \<noteq> respondWithConflict m) \<and>
   DELETE store_O (request_of ''A'') ''O'' = (respondWithServerError, store_O)"
  using DELETE_absent_application_is_server_error
    [of store_O "request_of ''A''" "''O''" "\<lparr>userId = ''A'', role = ''customer''\<rparr>"]
  by (simp add: validate_offerId_def z_string_min1_def request_of_def select_application_def
      store_O_def)

text \<open>
  Claim C5, as stated, fails: DELETE filters on customer and offer only, never on the
  status. Here customer \<open>''A''\<close> withdraws an application that is already \<open>ACCEPTED\<close>,
  and the row is deleted.
\<close>

theorem DELETE_ignores_status_counterexample:
  "DELETE (store_applied ACCEPTED) (request_of ''A'') ''O'' =
     (respondWithSuccess \<lparr>success = True, id_returned = ''app-A''\<rparr>,
      (store_applied ACCEPTED)\<lparr>offer_applicants := []\<rparr>)
   \<and> applicant_status (hd (offer_applicants (store_applied ACCEPTED))) = ACCEPTED
   \<and> customer (hd (offer_applicants (store_applied ACCEPTED))) = ''A''"
  by (simp add: DELETE_def validate_offerId_def z_string_min1_def verifyBearerToken_def
      request_of_def store_applied_def application_A_def delete_application_def
      select_application_def executeTakeFirstOrThrow_def)

lemma DELETE_success_D:
  assumes "DELETE db request offerId = (respondWithSuccess r, db')"
  shows "\<exists>a row rest. bearer request = Some a \<and> role a = ''customer'' \<and>
            select_application db (userId a) offerId = row # rest \<and>
            id_returned r = id_applicant row \<and>
            db' = db\<lparr>offer_applicants :=
              filter (\<lambda>x. \<not> (customer x = userId a \<and> offer x = offerId)) (offer_applicants db)\<rparr>"
  using assms
  by (auto simp: DELETE_def Let_def verifyBearerToken_def delete_application_def
      executeTakeFirstOrThrow_def executeTakeFirst_Some
      split: option.splits sum.splits if_splits list.splits)

text \<open>
  Claim C5, amended. DELETE succeeds only when the caller is a customer who has an
  application on the offer, and then deletes exactly the caller's applications on that
  offer and nothing else; the offers are untouched. It does so whatever the status of the
  application: a customer with an application in any status \<open>st\<close> gets the success
  response and the application is gone afterwards.
\<close>

theorem DELETE_withdraws_in_any_status:
  "(DELETE db request offerId = (respondWithSuccess r, db') \<longrightarrow>
      (\<exists>a row. bearer request = Some a \<and> role a = ''customer'' \<and>
         row \<in> set (offer_applicants db) \<and> customer row = userId a \<and> offer row = offerId \<and>
         id_returned r = id_applicant row \<and>
         offer_applicants db' =
           filter (\<lambda>x. \<not> (customer x = userId a \<and> offer x = offerId)) (offer_applicants db) \<and>
         offers db' = offers db))
   \<and> (validate_offerId offerId = [] \<and> bearer request = Some c \<and> role c = ''customer'' \<and>
        app \<in> set (offer_applicants db) \<and> customer app = userId c \<and> offer app = offerId \<and>
        applicant_status app = st \<longrightarrow>
        (\<exists>i. fst (DELETE db request offerId) = respondWithSuccess \<lparr>success = True, id_returned = i\<rparr>) \<and>
        app \<notin> set (offer_applicants (snd (DELETE db request offerId))))"
proof (intro conjI impI)
  assume "DELETE db request offerId = (respondWithSuccess r, db')"
  from DELETE_success_D [OF this] obtain a row rest where
    a: "bearer request = Some a" "role a = ''customer''"
    and sel: "select_application db (userId a) offerId = row # rest"
    and r: "id_returned r = id_applicant row"
    and db': "db' = db\<lparr>offer_applicants :=
              filter (\<lambda>x. \<not> (customer x = userId a \<and> offer x = offerId)) (offer_applicants db)\<rparr>"
    by blast
  from sel have "row \<in> set (select_application db (userId a) offerId)" by simp
  then have "row \<in> set (offer_applicants db) \<and> customer row = userId a \<and> offer row = offerId"
    by (simp add: select_application_def)
  with a r db' show "\<exists>a row. bearer request = Some a \<and> role a = ''customer'' \<and>
         row \<in> set (offer_applicants db) \<and> customer row = userId a \<and> offer row = offerId \<and>
         id_returned r = id_applicant row \<and>
         offer_applicants db' =
           filter (\<lambda>x. \<not> (customer x = userId a \<and> offer x = offerId)) (offer_applicants db) \<and>
         offers db' = offers db"
    by auto
next
  assume h: "validate_offerId offerId = [] \<and> bearer request = Some c \<and> role c = ''customer'' \<and>
        app \<in> set (offer_applicants db) \<and> customer app = userId c \<and> offer app = offerId \<and>
        applicant_status app = st"
  then have "app \<in> set (select_application db (userId c) offerId)"
    by (simp add: select_application_def)
  then obtain row rest where sel: "select_application db (userId c) offerId = row # rest"
    by (cases "select_application db (userId c) offerId") auto
  with h have D: "DELETE db request offerId =
      (respondWithSuccess \<lparr>success = True, id_returned = id_applicant row\<rparr>,
       db\<lparr>offer_applicants :=
              filter (\<lambda>x. \<not> (customer x = userId c \<and> offer x = offerId)) (offer_applicants db)\<rparr>)"
    by (simp add: DELETE_def verifyBearerToken_def delete_application_def
        executeTakeFirstOrThrow_def)
  show "(\<exists>i. fst (DELETE db request offerId) = respondWithSuccess \<lparr>success = True, id_returned = i\<rparr>)"
    by (simp add: D)
  show "app \<notin> set (offer_applicants (snd (DELETE db request offerId)))"
    using h by (simp add: D)
qed

theorem DELETE_withdraws_in_any_status_witness:
  "DELETE (store_applied DONE) (request_of ''A'') ''O'' =
     (respondWithSuccess \<lparr>success = True, id_returned = ''app-A''\<rparr>,
      (store_applied DONE)\<lparr>offer_applicants := []\<rparr>)
   \<and> (\<exists>a row. bearer (request_of ''A'') = Some a \<and> role a = ''customer'' \<and>
         row \<in> set (offer_applicants (store_applied DONE)) \<and> customer row = userId a \<and>
         offer row = ''O'' \<and> ''app-A'' = id_applicant row)
   \<and> application_A DONE \<notin>
        set (offer_applicants (snd (DELETE (store_applied DONE) (request_of ''A'') ''O'')))"
proof -
  have D: "DELETE (store_applied DONE) (request_of ''A'') ''O'' =
     (respondWithSuccess \<lparr>success = True, id_returned = ''app-A''\<rparr>,
      (store_applied DONE)\<lparr>offer_applicants := []\<rparr>)"
    by (simp add: DELETE_def validate_offerId_def z_string_min1_def verifyBearerToken_def
      request_of_def store_applied_def application_A_def delete_application_def
      select_application_def executeTakeFirstOrThrow_def)
  have pre: "validate_offerId ''O'' = [] \<and>
      bearer (request_of ''A'') = Some \<lparr>userId = ''A'', role = ''customer''\<rparr> \<and>
      role \<lparr>userId = ''A'', role = ''customer''\<rparr> = ''customer'' \<and>
      application_A DONE \<in> set (offer_applicants (store_applied DONE)) \<and>
      customer (application_A DONE) = userId \<lparr>userId = ''A'', role = ''customer''\<rparr> \<and>
      offer (application_A DONE) = ''O'' \<and> applicant_status (application_A DONE) = DONE"
    by (simp add: validate_offerId_def z_string_min1_def request_of_def store_applied_def
        application_A_def)
  from DELETE_withdraws_in_any_status
    [of "store_applied DONE" "request_of ''A''" "''O''"
        "\<lparr>success = True, id_returned = ''app-A''\<rparr>"
        "(store_applied DONE)\<lparr>offer_applicants := []\<rparr>"
        "\<lparr>userId = ''A'', role = ''customer''\<rparr>" "application_A DONE" DONE]
  show ?thesis using D pre by auto
qed

section \<open>Updating an application (PATCH)\<close>

lemma PATCH_store_applied:
  "PATCH (store_applied st) (request_of ''A'') ''O'' =
     (None, (store_applied st)\<lparr>offer_applicants :=
        [set_payload (application_A st) (destructured body_ok)]\<rparr>)"
  by (simp add: PATCH_def validate_offerId_def z_string_min1_def verifyBearerToken_def
      request_of_def body_ok_object safeParse_body_ok select_application_def
      store_applied_def application_A_def update_application_def not_array_def)

text \<open>
  Claim C8 at its failing input: customer \<open>''A''\<close>, who has an application on offer
  \<open>''O''\<close>, sends a valid PATCH. The update is carried out (the row now holds the new
  payload), and the handler returns nothing at all instead of the success envelope.
\<close>

theorem PATCH_update_returns_no_response:
  "fst (PATCH (store_applied PENDING) (request_of ''A'') ''O'') = None
   \<and> offer_applicants (snd (PATCH (store_applied PENDING) (request_of ''A'') ''O'')) =
       [set_payload (application_A PENDING) (destructured body_ok)]
   \<and> set_payload (application_A PENDING) (destructured body_ok) \<noteq> application_A PENDING"
  by (simp add: PATCH_store_applied set_payload_def application_A_def destructured_def body_ok_def)

lemma PATCH_None_D:
  assumes "PATCH db request offerId = (None, db')"
  shows "\<exists>a body target. bearer request = Some a \<and> json_body request = Some body \<and>
           executeTakeFirst (select_application db (userId a) offerId) = Some target \<and>
           db' = snd (update_application db (id_applicant target) (destructured body))"
  using assms
  by (auto simp: PATCH_def Let_def verifyBearerToken_def safeParse_def
      split: option.splits sum.splits if_splits prod.splits)

lemma set_payload_frame:
  "id_applicant (set_payload r v) = id_applicant r \<and>
   applicant_status (set_payload r v) = applicant_status r \<and>
   customer (set_payload r v) = customer r \<and> offer (set_payload r v) = offer r"
  by (simp add: set_payload_def)

text \<open>
  Claim C10. When PATCH gets as far as the update (its only path that is not an error
  response), the offers are unchanged, the applications stay in place one by one, every
  application keeps its id, status, customer and offer, and every application other than
  the targeted one (the caller's first application on the offer, addressed by its id) is
  unchanged altogether. So only the seven payload columns of the target can differ.
\<close>

theorem PATCH_changes_only_the_payload_of_the_target:
  assumes "PATCH db request offerId = (None, db')"
  shows "\<exists>a target. bearer request = Some a \<and>
           executeTakeFirst (select_application db (userId a) offerId) = Some target \<and>
           offers db' = offers db \<and>
           list_all2
             (\<lambda>r r'. id_applicant r' = id_applicant r \<and>
                      applicant_status r' = applicant_status r \<and>
                      customer r' = customer r \<and> offer r' = offer r \<and>
                      (id_applicant r \<noteq> id_applicant target \<longrightarrow> r' = r))
             (offer_applicants db) (offer_applicants db')"
proof -
  from PATCH_None_D [OF assms] obtain a body target where
    a: "bearer request = Some a"
    and t: "executeTakeFirst (select_application db (userId a) offerId) = Some target"
    and db': "db' = snd (update_application db (id_applicant target) (destructured body))"
    by blast
  have "offers db' = offers db"
    by (simp add: db' update_application_def)
  moreover have "list_all2
             (\<lambda>r r'. id_applicant r' = id_applicant r \<and>
                      applicant_status r' = applicant_status r \<and>
                      customer r' = customer r \<and> offer r' = offer r \<and>
                      (id_applicant r \<noteq> id_applicant target \<longrightarrow> r' = r))
             (offer_applicants db) (offer_applicants db')"
    by (simp add: db' update_application_def list_all2_map2 list_all2_same set_payload_frame)
  ultimately show ?thesis using a t by blast
qed

theorem PATCH_changes_only_the_payload_of_the_target_witness:
  "PATCH (store_applied ACCEPTED) (request_of ''A'') ''O'' =
     (None, (store_applied ACCEPTED)\<lparr>offer_applicants :=
        [set_payload (application_A ACCEPTED) (destructured body_ok)]\<rparr>)
   \<and> (\<exists>a target. bearer (request_of ''A'') = Some a \<and>
           executeTakeFirst (select_application (store_applied ACCEPTED) (userId a) ''O'')
             = Some target \<and>
           offers ((store_applied ACCEPTED)\<lparr>offer_applicants :=
              [set_payload (application_A ACCEPTED) (destructured body_ok)]\<rparr>)
             = offers (store_applied ACCEPTED) \<and>
           list_all2
             (\<lambda>r r'. id_applicant r' = id_applicant r \<and>
                      applicant_status r' = applicant_status r \<and>
                      customer r' = customer r \<and> offer r' = offer r \<and>
                      (id_applicant r \<noteq> id_applicant target \<longrightarrow> r' = r))
             (offer_applicants (store_applied ACCEPTED))
             (offer_applicants ((store_applied ACCEPTED)\<lparr>offer_applicants :=
                [set_payload (application_A ACCEPTED) (destructured body_ok)]\<rparr>)))"
  using PATCH_changes_only_the_payload_of_the_target [OF PATCH_store_applied [of ACCEPTED]]
    PATCH_store_applied [of ACCEPTED]
  by simp

section \<open>Chat topics\<close>

text \<open>
  Claim C6, as stated, fails in its last part: the ids are arbitrary strings, and the two
  distinct ids \<open>''a''\<close> and \<open>''a-a''\<close> give the same string in both directions, so this
  client publishes to the very topic it subscribes to.
\<close>

theorem chat_topics_collide_counterexample:
  "''a'' \<noteq> ''a-a'' \<and>
   mqttChatMessagesPubTopic id ''a'' ''a-a'' = mqttChatMessagesSubTopic id ''a'' ''a-a'' \<and>
   mqttChatMessagesPubTopic id ''a'' ''a-a'' \<in> set (published id ''a'' ''a-a'') \<and>
   mqttChatMessagesSubTopic id ''a'' ''a-a'' \<in> set (subscribed id ''a'' ''a-a'')"
  by (simp add: mqttChatMessagesPubTopic_def mqttChatMessagesSubTopic_def published_def
      subscribed_def)

lemma directed_pair_distinct:
  assumes "a \<noteq> b"
    and "length a = length b \<or> (CHR ''-'' \<notin> set a \<and> CHR ''-'' \<notin> set b)"
  shows "a @ ''-'' @ b \<noteq> b @ ''-'' @ a"
proof
  assume eq: "a @ ''-'' @ b = b @ ''-'' @ a"
  from assms(2) show False
  proof
    assume "length a = length b"
    with eq have "a = b"
      using append_eq_append_conv [of a b "''-'' @ b" "''-'' @ a"] by blast
    with assms(1) show False by simp
  next
    assume nh: "CHR ''-'' \<notin> set a \<and> CHR ''-'' \<notin> set b"
    have "takeWhile (\<lambda>c. c \<noteq> CHR ''-'') (a @ ''-'' @ b) = a"
      using nh by (subst takeWhile_append2) auto
    moreover have "takeWhile (\<lambda>c. c \<noteq> CHR ''-'') (b @ ''-'' @ a) = b"
      using nh by (subst takeWhile_append2) auto
    ultimately have "a = b" using eq by simp
    with assms(1) show False by simp
  qed
qed

text \<open>
  Claim C6, amended. For every pair of ids the client subscribes to exactly the topic
  \<open>chat-messages/{counterpart}-{self}\<close> and publishes to exactly
  \<open>chat-messages/{self}-{counterpart}\<close> and \<open>chat-rooms/{counterpart}\<close>, each passed
  through \<open>getPrefixedTopic\<close>; the publish message topic of \<open>a\<close> towards \<open>b\<close> is the
  subscribe topic of \<open>b\<close> towards \<open>a\<close>, and vice versa. When \<open>getPrefixedTopic\<close> is
  injective and the two ids are distinct and either of equal length or free of hyphens, no
  topic the client publishes to is the one it subscribes to.
\<close>

theorem chat_topics_mirror:
  "subscribed g self cp = [g (''chat-messages/'' @ cp @ ''-'' @ self)]
   \<and> published g self cp = [g (''chat-messages/'' @ self @ ''-'' @ cp), g (''chat-rooms/'' @ cp)]
   \<and> mqttChatMessagesPubTopic g a b = mqttChatMessagesSubTopic g b a
   \<and> mqttChatMessagesPubTopic g b a = mqttChatMessagesSubTopic g a b
   \<and> (inj g \<and> a \<noteq> b \<and>
        (length a = length b \<or> (CHR ''-'' \<notin> set a \<and> CHR ''-'' \<notin> set b))
      \<longrightarrow> set (published g a b) \<inter> set (subscribed g a b) = {})"
proof (intro conjI impI)
  assume h: "inj g \<and> a \<noteq> b \<and>
        (length a = length b \<or> (CHR ''-'' \<notin> set a \<and> CHR ''-'' \<notin> set b))"
  then have d: "a @ ''-'' @ b \<noteq> b @ ''-'' @ a"
    using directed_pair_distinct by blast
  from h have g: "\<And>s t. g s = g t \<longleftrightarrow> s = t"
    by (auto dest: injD)
  show "set (published g a b) \<inter> set (subscribed g a b) = {}"
    using d
    by (simp add: published_def subscribed_def mqttChatMessagesPubTopic_def
        mqttChatMessagesSubTopic_def mqttChatRoomsPubTopic_def g)
qed (simp_all add: published_def subscribed_def mqttChatMessagesPubTopic_def
        mqttChatMessagesSubTopic_def mqttChatRoomsPubTopic_def)

theorem chat_topics_mirror_witness:
  "subscribed (append ''unitip/'') ''u1'' ''u2'' = [''unitip/chat-messages/u2-u1'']
   \<and> published (append ''unitip/'') ''u1'' ''u2'' =
       [''unitip/chat-messages/u1-u2'', ''unitip/chat-rooms/u2'']
   \<and> mqttChatMessagesPubTopic (append ''unitip/'') ''u1'' ''u2'' =
       mqttChatMessagesSubTopic (append ''unitip/'') ''u2'' ''u1''
   \<and> inj (append ''unitip/'') \<and> ''u1'' \<noteq> ''u2'' \<and> length ''u1'' = length ''u2''
   \<and> set (published (append ''unitip/'') ''u1'' ''u2'')
       \<inter> set (subscribed (append ''unitip/'') ''u1'' ''u2'') = {}"
proof -
  have i: "inj (append ''unitip/'')"
    by (simp add: inj_on_def)
  show ?thesis
    using chat_topics_mirror [of "append ''unitip/''" "''u1''" "''u2''" "''u1''" "''u2''"] i
    by simp
qed

section \<open>Applying to an offer (POST)\<close>

lemma valid_customer_call_request_of:
  "offer_id \<noteq> [] \<Longrightarrow> valid_customer_call (request_of user) offer_id user"
  by (simp add: valid_customer_call_def request_of_def body_ok_object schema_issues_body_ok)

lemma valid_customer_call_D:
  assumes "valid_customer_call request offer_id user"
  obtains body where "json_body request = Some body" "body \<noteq> JNull" "body \<noteq> JUndefined"
    "safeParse body offer_id = Inr (destructured body)"
    "verifyBearerToken request = Some \<lparr>userId = user, role = ''customer''\<rparr>"
  using assms
  by (cases "json_body request")
     (simp_all add: valid_customer_call_def safeParse_def verifyBearerToken_def)

lemma executeTakeFirst_case:
  "(case executeTakeFirst rows of None \<Rightarrow> x | Some r \<Rightarrow> f r) =
   (if rows = [] then x else f (hd rows))"
  by (cases rows) simp_all

lemma POST_valid_call:
  assumes "valid_customer_call request offer_id user"
  shows "POST db now new_id request offer_id =
     (if select_available_offer db now offer_id = []
      then (respondWithConflict ''Offer tidak tersedia atau sudah berakhir!'', db)
      else if select_application db user offer_id \<noteq> []
      then (respondWithConflict ''Anda sudah mengajukan aplikasi untuk offer ini!'', db)
      else (respondWithSuccess \<lparr>success = True, id_returned = new_id\<rparr>,
            set_on_progress
              (db\<lparr>offer_applicants := offer_applicants db @
                 [payload.extend (destructured (the (json_body request)))
                    \<lparr>id_applicant = new_id, applicant_status = PENDING,
                     customer = user, offer = offer_id\<rparr>]\<rparr>) offer_id))"
proof -
  from assms obtain body where b: "json_body request = Some body" "body \<noteq> JNull"
    "body \<noteq> JUndefined" "safeParse body offer_id = Inr (destructured body)"
    "verifyBearerToken request = Some \<lparr>userId = user, role = ''customer''\<rparr>"
    by (rule valid_customer_call_D)
  show ?thesis
    unfolding POST_def
    by (simp add: b executeTakeFirst_case insert_application_def)
qed



lemma filter_available_on_progress:
  "filter (\<lambda>r. id_offer r = offer_id \<and> offer_status r = ''available'' \<and> now < available_until r)
     (map (\<lambda>r. if id_offer r = offer_id then r\<lparr>offer_status := ''on_progress''\<rparr> else r) xs) = []"
  by (induction xs) simp_all

lemma offers_set_on_progress:
  "offers (set_on_progress db offer_id) =
     map (\<lambda>r. if id_offer r = offer_id then r\<lparr>offer_status := ''on_progress''\<rparr> else r)
       (offers db)"
  by (simp add: set_on_progress_def)

lemma select_available_offer_set_on_progress:
  "select_available_offer (set_on_progress db offer_id) now offer_id = []"
  unfolding select_available_offer_def offers_set_on_progress
  by (rule filter_available_on_progress)

lemma POST_not_valid:
  assumes "\<not> (\<exists>user. valid_customer_call request offer_id user)"
  shows "snd (POST db now new_id request offer_id) = db \<and>
         (\<forall>r. fst (POST db now new_id request offer_id) \<noteq> respondWithSuccess r) \<and>
         (\<forall>m. fst (POST db now new_id request offer_id) \<noteq> respondWithConflict m)"
proof (cases "json_body request")
  case None
  then show ?thesis by (simp add: POST_def)
next
  case (Some body)
  show ?thesis
  proof (cases "body = JNull \<or> body = JUndefined")
    case True
    with Some show ?thesis by (simp add: POST_def)
  next
    case nn: False
    show ?thesis
    proof (cases "schema_issues body offer_id = []")
      case False
      with Some nn show ?thesis by (simp add: POST_def safeParse_def)
    next
      case ok: True
      show ?thesis
      proof (cases "bearer request")
        case None
        with Some nn ok show ?thesis
          by (simp add: POST_def safeParse_def verifyBearerToken_def)
      next
        case (Some a)
        with assms \<open>json_body request = Some body\<close> nn ok
        have "role a \<noteq> ''customer''"
          by (cases a) (auto simp: valid_customer_call_def)
        with Some \<open>json_body request = Some body\<close> nn ok show ?thesis
          by (simp add: POST_def safeParse_def verifyBearerToken_def)
      qed
    qed
  qed
qed

lemma POST_success_D:
  assumes "POST db now new_id request offer_id = (respondWithSuccess r, db')"
  shows "\<exists>user. valid_customer_call request offer_id user \<and>
           select_available_offer db now offer_id \<noteq> [] \<and>
           select_application db user offer_id = []"
proof -
  from assms POST_not_valid [of request offer_id db now new_id]
  obtain user where v: "valid_customer_call request offer_id user"
    by fastforce
  from assms have "select_available_offer db now offer_id \<noteq> [] \<and>
           select_application db user offer_id = []"
    unfolding POST_valid_call [OF v]
    by (simp split: if_splits)
  with v show ?thesis by blast
qed

lemma POST_store_O:
  "POST store_O 0 new_id (request_of user) ''O'' =
     (respondWithSuccess \<lparr>success = True, id_returned = new_id\<rparr>, store_after user new_id)"
proof -
  have v: "valid_customer_call (request_of user) ''O'' user"
    by (simp add: valid_customer_call_request_of)
  show ?thesis
    unfolding POST_valid_call [OF v]
    by (simp add: store_O_def offer_O_def select_available_offer_def select_application_def
        set_on_progress_def request_of_def store_after_def application_of_def)
qed

lemma select_available_offer_store_after:
  "select_available_offer (store_after user new_id) now ''O'' = []"
  by (simp add: select_available_offer_def store_after_def offer_O_def)

lemma POST_success_effect:
  assumes "POST db now new_id request offer_id = (respondWithSuccess r, db')"
  shows "\<exists>user body. valid_customer_call request offer_id user \<and> json_body request = Some body \<and>
           select_available_offer db now offer_id \<noteq> [] \<and>
           select_application db user offer_id = [] \<and>
           r = \<lparr>success = True, id_returned = new_id\<rparr> \<and>
           db' = set_on_progress
              (db\<lparr>offer_applicants := offer_applicants db @
                 [payload.extend (destructured body)
                    \<lparr>id_applicant = new_id, applicant_status = PENDING,
                     customer = user, offer = offer_id\<rparr>]\<rparr>) offer_id"
proof -
  from POST_success_D [OF assms] obtain user where
    v: "valid_customer_call request offer_id user"
    and s: "select_available_offer db now offer_id \<noteq> []" "select_application db user offer_id = []"
    by blast
  from v obtain body where b: "json_body request = Some body"
    by (rule valid_customer_call_D)
  from assms have "r = \<lparr>success = True, id_returned = new_id\<rparr> \<and>
           db' = set_on_progress
              (db\<lparr>offer_applicants := offer_applicants db @
                 [payload.extend (destructured body)
                    \<lparr>id_applicant = new_id, applicant_status = PENDING,
                     customer = user, offer = offer_id\<rparr>]\<rparr>) offer_id"
    unfolding POST_valid_call [OF v]
    using s b by auto
  with v s b show ?thesis by blast
qed

lemma on_progress_after_update:
  "\<forall>x \<in> set (map (\<lambda>r. if id_offer r = offer_id then r\<lparr>offer_status := ''on_progress''\<rparr> else r) xs).
     id_offer x = offer_id \<longrightarrow> offer_status x = ''on_progress''"
proof (intro ballI impI)
  fix x
  assume "x \<in> set (map (\<lambda>r. if id_offer r = offer_id then r\<lparr>offer_status := ''on_progress''\<rparr> else r) xs)"
    and i: "id_offer x = offer_id"
  then obtain r where x: "x = (if id_offer r = offer_id then r\<lparr>offer_status := ''on_progress''\<rparr> else r)"
    by (auto simp only: set_map)
  show "offer_status x = ''on_progress''"
  proof (cases "id_offer r = offer_id")
    case True
    with x have "x = r\<lparr>offer_status := ''on_progress''\<rparr>" by (simp only: if_True simp_thms)
    then show ?thesis by simp
  next
    case False
    with x have "x = r" by (simp only: if_False simp_thms)
    with i False show ?thesis by blast
  qed
qed

text \<open>
  Claim C1, as stated, fails: a successful apply sets the offer to \<open>on_progress\<close>, and
  the next apply only selects an offer that is \<open>available\<close>. Customer \<open>''A''\<close> applies
  to the available offer \<open>''O''\<close> and succeeds; customer \<open>''B''\<close> applies next and gets
  the conflict response; the only application on \<open>''O''\<close> is that of \<open>''A''\<close>.
\<close>

theorem second_applicant_rejected_counterexample:
  "''A'' \<noteq> ''B''
   \<and> POST store_O 0 ''app-A'' (request_of ''A'') ''O'' =
       (respondWithSuccess \<lparr>success = True, id_returned = ''app-A''\<rparr>, store_after ''A'' ''app-A'')
   \<and> POST (store_after ''A'' ''app-A'') 1 ''app-B'' (request_of ''B'') ''O'' =
       (respondWithConflict ''Offer tidak tersedia atau sudah berakhir!'',
        store_after ''A'' ''app-A'')
   \<and> offer_applicants (store_after ''A'' ''app-A'') = [application_of ''A'' ''app-A'']"
proof -
  have v: "valid_customer_call (request_of ''B'') ''O'' ''B''"
    by (simp add: valid_customer_call_request_of)
  have "POST (store_after ''A'' ''app-A'') 1 ''app-B'' (request_of ''B'') ''O'' =
       (respondWithConflict ''Offer tidak tersedia atau sudah berakhir!'',
        store_after ''A'' ''app-A'')"
    unfolding POST_valid_call [OF v] select_available_offer_store_after by simp
  then show ?thesis
    by (simp add: POST_store_O store_after_def)
qed

text \<open>
  Claim C1, amended. If an apply call on an offer succeeds, it has added exactly one
  application, in status \<open>PENDING\<close>, and left every offer row of that id in status
  \<open>on_progress\<close>; a subsequent well-formed apply call by any customer on the same offer,
  at any later time, is answered with the conflict "offer not available or ended" and
  changes nothing.
\<close>

theorem apply_after_successful_apply_conflicts:
  assumes "POST db now new_id requestA offer_id = (respondWithSuccess r, db')"
    and "valid_customer_call requestB offer_id B"
  shows "POST db' now' new_id' requestB offer_id =
           (respondWithConflict ''Offer tidak tersedia atau sudah berakhir!'', db')
         \<and> (\<exists>app. offer_applicants db' = offer_applicants db @ [app] \<and>
                applicant_status app = PENDING \<and> offer app = offer_id \<and>
                id_applicant app = new_id)
         \<and> (\<forall>x \<in> set (offers db'). id_offer x = offer_id \<longrightarrow> offer_status x = ''on_progress'')"
proof -
  from POST_success_effect [OF assms(1)] obtain user body where
    db': "db' = set_on_progress
              (db\<lparr>offer_applicants := offer_applicants db @
                 [payload.extend (destructured body)
                    \<lparr>id_applicant = new_id, applicant_status = PENDING,
                     customer = user, offer = offer_id\<rparr>]\<rparr>) offer_id"
    by blast
  have "select_available_offer db' now' offer_id = []"
    unfolding db' by (rule select_available_offer_set_on_progress)
  then have 1: "POST db' now' new_id' requestB offer_id =
           (respondWithConflict ''Offer tidak tersedia atau sudah berakhir!'', db')"
    unfolding POST_valid_call [OF assms(2)] by simp
  have 2: "\<exists>app. offer_applicants db' = offer_applicants db @ [app] \<and>
                applicant_status app = PENDING \<and> offer app = offer_id \<and>
                id_applicant app = new_id"
    unfolding db' by (simp add: set_on_progress_def payload.defs)
  have 3: "\<forall>x \<in> set (offers db'). id_offer x = offer_id \<longrightarrow> offer_status x = ''on_progress''"
    unfolding db' offers_set_on_progress
    by (rule on_progress_after_update)
  from 1 2 3 show ?thesis by blast
qed

theorem apply_after_successful_apply_conflicts_witness:
  "POST store_O 0 ''app-A'' (request_of ''A'') ''O'' =
     (respondWithSuccess \<lparr>success = True, id_returned = ''app-A''\<rparr>, store_after ''A'' ''app-A'')
   \<and> valid_customer_call (request_of ''B'') ''O'' ''B''
   \<and> POST (store_after ''A'' ''app-A'') 1 ''app-B'' (request_of ''B'') ''O'' =
       (respondWithConflict ''Offer tidak tersedia atau sudah berakhir!'',
        store_after ''A'' ''app-A'')"
proof -
  have v: "valid_customer_call (request_of ''B'') ''O'' ''B''"
    by (simp add: valid_customer_call_request_of)
  from apply_after_successful_apply_conflicts
    [OF POST_store_O [of "''app-A''" "''A''"] v, of 1 "''app-B''"]
  have "POST (store_after ''A'' ''app-A'') 1 ''app-B'' (request_of ''B'') ''O'' =
       (respondWithConflict ''Offer tidak tersedia atau sudah berakhir!'',
        store_after ''A'' ''app-A'')"
    by (rule conjunct1)
  with v show ?thesis
    by (simp only: POST_store_O simp_thms)
qed

text \<open>
  Claim C3, as stated, fails: the offer is looked at before the duplicate. Customer
  \<open>''A''\<close> applies to \<open>''O''\<close> and succeeds, which puts the offer in status
  \<open>on_progress\<close>; the same call again is answered with the conflict "offer not
  available or ended", not with the duplicate-application reason.
\<close>

theorem second_apply_reports_unavailable_counterexample:
  "POST store_O 0 ''app-A'' (request_of ''A'') ''O'' =
     (respondWithSuccess \<lparr>success = True, id_returned = ''app-A''\<rparr>, store_after ''A'' ''app-A'')
   \<and> customer (hd (offer_applicants (store_after ''A'' ''app-A''))) = ''A''
   \<and> fst (POST (store_after ''A'' ''app-A'') 1 ''app-A2'' (request_of ''A'') ''O'') =
       respondWithConflict ''Offer tidak tersedia atau sudah berakhir!''
   \<and> fst (POST (store_after ''A'' ''app-A'') 1 ''app-A2'' (request_of ''A'') ''O'') \<noteq>
       respondWithConflict ''Anda sudah mengajukan aplikasi untuk offer ini!''"
proof -
  have v: "valid_customer_call (request_of ''A'') ''O'' ''A''"
    by (simp add: valid_customer_call_request_of)
  have "POST (store_after ''A'' ''app-A'') 1 ''app-A2'' (request_of ''A'') ''O'' =
       (respondWithConflict ''Offer tidak tersedia atau sudah berakhir!'',
        store_after ''A'' ''app-A'')"
    unfolding POST_valid_call [OF v] select_available_offer_store_after by simp
  then show ?thesis
    by (simp add: POST_store_O store_after_def application_of_def payload.defs)
qed

text \<open>
  Claim C3, amended. A well-formed apply call by a customer who already has an application
  on the offer is always answered with a conflict and leaves the store as it was. The
  reason is the duplicate-application one exactly when the offer is still selectable
  (status \<open>available\<close> and not yet expired); otherwise it is the reason "offer not
  available or ended".
\<close>

theorem repeated_apply_conflicts:
  assumes "valid_customer_call request offer_id user"
    and "app \<in> set (offer_applicants db)" and "customer app = user" and "offer app = offer_id"
  shows "POST db now new_id request offer_id =
           (respondWithConflict
              (if select_available_offer db now offer_id = []
               then ''Offer tidak tersedia atau sudah berakhir!''
               else ''Anda sudah mengajukan aplikasi untuk offer ini!''), db)"
proof -
  from assms(2-4) have "app \<in> set (select_application db user offer_id)"
    by (simp add: select_application_def)
  then have "select_application db user offer_id \<noteq> []"
    by (cases "select_application db user offer_id") simp_all
  then show ?thesis
    unfolding POST_valid_call [OF assms(1)] by simp
qed

theorem repeated_apply_conflicts_witness:
  "valid_customer_call (request_of ''A'') ''O'' ''A''
   \<and> application_A PENDING \<in> set (offer_applicants ((store_applied PENDING)\<lparr>offers := [offer_O]\<rparr>))
   \<and> customer (application_A PENDING) = ''A'' \<and> offer (application_A PENDING) = ''O''
   \<and> POST ((store_applied PENDING)\<lparr>offers := [offer_O]\<rparr>) 0 ''app-A2'' (request_of ''A'') ''O'' =
       (respondWithConflict ''Anda sudah mengajukan aplikasi untuk offer ini!'',
        (store_applied PENDING)\<lparr>offers := [offer_O]\<rparr>)"
proof -
  have v: "valid_customer_call (request_of ''A'') ''O'' ''A''"
    by (simp add: valid_customer_call_request_of)
  have m: "application_A PENDING \<in>
      set (offer_applicants ((store_applied PENDING)\<lparr>offers := [offer_O]\<rparr>))"
    by (simp add: store_applied_def)
  have c: "customer (application_A PENDING) = ''A''" "offer (application_A PENDING) = ''O''"
    by (simp_all add: application_A_def)
  have s: "select_available_offer ((store_applied PENDING)\<lparr>offers := [offer_O]\<rparr>) 0 ''O'' \<noteq> []"
    by (simp add: select_available_offer_def offer_O_def)
  from repeated_apply_conflicts [OF v m c, of 0 "''app-A2''"] s v m c
  show ?thesis by simp
qed

text \<open>
  Claim C4, as stated, fails in its second part: the reason does not tell expiry from a
  filled slot. An offer that is \<open>available\<close> but expired (open until 5, asked at 10) and
  an offer that is not expired but taken (status \<open>on_progress\<close> after the apply of
  \<open>''B''\<close>) give the same conflict reason.
\<close>

theorem expiry_and_filled_slot_same_reason_counterexample:
  "available_until (offer_O\<lparr>available_until := 5\<rparr>) < 10
   \<and> offer_status (offer_O\<lparr>available_until := 5\<rparr>) = ''available''
   \<and> fst (POST (store_O\<lparr>offers := [offer_O\<lparr>available_until := 5\<rparr>]\<rparr>) 10 ''app-A''
             (request_of ''A'') ''O'') =
       respondWithConflict ''Offer tidak tersedia atau sudah berakhir!''
   \<and> offers (store_after ''B'' ''app-B'') = [offer_O\<lparr>offer_status := ''on_progress''\<rparr>]
   \<and> 10 < available_until (offer_O\<lparr>offer_status := ''on_progress''\<rparr>)
   \<and> fst (POST (store_after ''B'' ''app-B'') 10 ''app-A'' (request_of ''A'') ''O'') =
       respondWithConflict ''Offer tidak tersedia atau sudah berakhir!''"
proof -
  have v: "valid_customer_call (request_of ''A'') ''O'' ''A''"
    by (simp add: valid_customer_call_request_of)
  have e: "select_available_offer (store_O\<lparr>offers := [offer_O\<lparr>available_until := 5\<rparr>]\<rparr>) 10 ''O'' = []"
    by (simp add: select_available_offer_def offer_O_def)
  show ?thesis
    unfolding POST_valid_call [OF v] select_available_offer_store_after e
    by (simp add: offer_O_def store_after_def)
qed

lemma select_available_offer_empty:
  assumes "\<forall>x \<in> set (offers db). id_offer x = offer_id \<longrightarrow>
             available_until x \<le> now \<or> offer_status x \<noteq> ''available''"
  shows "select_available_offer db now offer_id = []"
  unfolding select_available_offer_def filter_empty_conv
  using assms by fastforce

text \<open>
  Claim C4, amended. A well-formed apply call by a customer on an offer whose
  \<open>available_until\<close> is not after the store's clock is answered with the conflict (409)
  "offer not available or ended" whatever the stored \<open>offer_status\<close>, and the store is
  unchanged; this reason differs from the duplicate-application reason. The same conflict
  with the same reason answers a call on an offer that is not in status \<open>available\<close>.
\<close>

theorem expired_offer_conflicts:
  assumes "valid_customer_call request offer_id user"
  shows "((\<forall>x \<in> set (offers db). id_offer x = offer_id \<longrightarrow> available_until x \<le> now) \<longrightarrow>
            POST db now new_id request offer_id =
              (respondWithConflict ''Offer tidak tersedia atau sudah berakhir!'', db) \<and>
            status_code (fst (POST db now new_id request offer_id)) = 409 \<and>
            fst (POST db now new_id request offer_id) \<noteq>
              respondWithConflict ''Anda sudah mengajukan aplikasi untuk offer ini!'')
       \<and> ((\<forall>x \<in> set (offers db). id_offer x = offer_id \<longrightarrow> offer_status x \<noteq> ''available'') \<longrightarrow>
            POST db now new_id request offer_id =
              (respondWithConflict ''Offer tidak tersedia atau sudah berakhir!'', db))"
proof (intro conjI impI)
  assume "\<forall>x \<in> set (offers db). id_offer x = offer_id \<longrightarrow> available_until x \<le> now"
  then have "select_available_offer db now offer_id = []"
    by (intro select_available_offer_empty) blast
  then have p: "POST db now new_id request offer_id =
              (respondWithConflict ''Offer tidak tersedia atau sudah berakhir!'', db)"
    unfolding POST_valid_call [OF assms] by simp
  show "POST db now new_id request offer_id =
              (respondWithConflict ''Offer tidak tersedia atau sudah berakhir!'', db)"
    by (rule p)
  show "status_code (fst (POST db now new_id request offer_id)) = 409"
    by (simp add: p)
  show "fst (POST db now new_id request offer_id) \<noteq>
              respondWithConflict ''Anda sudah mengajukan aplikasi untuk offer ini!''"
    by (simp add: p)
next
  assume "\<forall>x \<in> set (offers db). id_offer x = offer_id \<longrightarrow> offer_status x \<noteq> ''available''"
  then have "select_available_offer db now offer_id = []"
    by (intro select_available_offer_empty) blast
  then show "POST db now new_id request offer_id =
              (respondWithConflict ''Offer tidak tersedia atau sudah berakhir!'', db)"
    unfolding POST_valid_call [OF assms] by simp
qed


theorem expired_offer_conflicts_witness:
  "valid_customer_call (request_of ''A'') ''O'' ''A''
   \<and> offers (store_O\<lparr>offers := [offer_O\<lparr>available_until := 5\<rparr>]\<rparr>) =
       [\<lparr>id_offer = ''O'', offer_status = ''available'', available_until = 5\<rparr>]
   \<and> POST (store_O\<lparr>offers := [offer_O\<lparr>available_until := 5\<rparr>]\<rparr>) 10 ''app-A''
         (request_of ''A'') ''O'' =
       (respondWithConflict ''Offer tidak tersedia atau sudah berakhir!'',
        store_O\<lparr>offers := [offer_O\<lparr>available_until := 5\<rparr>]\<rparr>)
   \<and> offers (store_after ''B'' ''app-B'') =
       [\<lparr>id_offer = ''O'', offer_status = ''on_progress'', available_until = 100\<rparr>]
   \<and> POST (store_after ''B'' ''app-B'') 10 ''app-A'' (request_of ''A'') ''O'' =
       (respondWithConflict ''Offer tidak tersedia atau sudah berakhir!'',
        store_after ''B'' ''app-B'')"
proof -
  have v: "valid_customer_call (request_of ''A'') ''O'' ''A''"
    by (simp add: valid_customer_call_request_of)
  have e: "\<forall>x \<in> set (offers (store_O\<lparr>offers := [offer_O\<lparr>available_until := 5\<rparr>]\<rparr>)).
         id_offer x = ''O'' \<longrightarrow> available_until x \<le> 10"
    by (simp add: offer_O_def)
  have f: "\<forall>x \<in> set (offers (store_after ''B'' ''app-B'')).
         id_offer x = ''O'' \<longrightarrow> offer_status x \<noteq> ''available''"
    by (simp add: store_after_def offer_O_def)
  from expired_offer_conflicts
         [OF v, of "store_O\<lparr>offers := [offer_O\<lparr>available_until := 5\<rparr>]\<rparr>" 10 "''app-A''"]
       expired_offer_conflicts [OF v, of "store_after ''B'' ''app-B''" 10 "''app-A''"]
       v e f
  have "POST (store_O\<lparr>offers := [offer_O\<lparr>available_until := 5\<rparr>]\<rparr>) 10 ''app-A''
         (request_of ''A'') ''O'' =
       (respondWithConflict ''Offer tidak tersedia atau sudah berakhir!'',
        store_O\<lparr>offers := [offer_O\<lparr>available_until := 5\<rparr>]\<rparr>)
     \<and> POST (store_after ''B'' ''app-B'') 10 ''app-A'' (request_of ''A'') ''O'' =
       (respondWithConflict ''Offer tidak tersedia atau sudah berakhir!'',
        store_after ''B'' ''app-B'')"
    by blast
  with v show ?thesis
    by (simp add: store_after_def offer_O_def)
qed

text \<open>
  Claim C7, as stated, fails: the successful apply of \<open>''A''\<close> on \<open>''O''\<close> changes
  \<open>offer_status\<close> from \<open>available\<close> to \<open>on_progress\<close>, which is the value of neither
  member of \<open>OfferStatus\<close>.
\<close>

theorem apply_writes_on_progress_counterexample:
  "POST store_O 0 ''app-A'' (request_of ''A'') ''O'' =
     (respondWithSuccess \<lparr>success = True, id_returned = ''app-A''\<rparr>, store_after ''A'' ''app-A'')
   \<and> map offer_status (offers store_O) = [''available'']
   \<and> map offer_status (offers (store_after ''A'' ''app-A'')) = [''on_progress'']
   \<and> ''on_progress'' \<noteq> OfferStatus_value AVAILABLE
   \<and> ''on_progress'' \<noteq> OfferStatus_value CLOSED"
  using POST_store_O [of "''app-A''" "''A''"]
  by (simp add: store_after_def store_O_def offer_O_def)

lemma OfferStatus_values: "range OfferStatus_value = {''available'', ''closed''}"
proof -
  have "UNIV = {AVAILABLE, CLOSED}"
    using OfferStatus.exhaust by blast
  then have "range OfferStatus_value = OfferStatus_value ` {AVAILABLE, CLOSED}"
    by simp
  then show ?thesis by simp
qed

lemma DELETE_offers: "offers (snd (DELETE db request offerId)) = offers db"
  by (simp add: DELETE_def Let_def delete_application_def split: option.splits sum.splits)

lemma PATCH_offers: "offers (snd (PATCH db request offerId)) = offers db"
  by (simp add: PATCH_def Let_def update_application_def split: option.splits sum.splits)

lemma POST_failure_offers:
  assumes "\<forall>r. fst (POST db now new_id request offer_id) \<noteq> respondWithSuccess r"
  shows "snd (POST db now new_id request offer_id) = db"
proof (cases "\<exists>user. valid_customer_call request offer_id user")
  case False
  then show ?thesis using POST_not_valid by blast
next
  case True
  then obtain user where v: "valid_customer_call request offer_id user" by blast
  from assms show ?thesis
    unfolding POST_valid_call [OF v] by (simp split: if_splits)
qed

text \<open>
  Claim C7, amended. The only value the handlers of the apply route write to
  \<open>offer_status\<close> is \<open>on_progress\<close>, which is outside the \<open>OfferStatus\<close> enum: a
  successful POST sets it on every offer row with the given id and leaves the other
  offers as they were; a POST that does not succeed, DELETE and PATCH leave all offers
  unchanged.
\<close>

theorem apply_route_writes_on_progress:
  "(POST db now new_id request offer_id = (respondWithSuccess r, db') \<longrightarrow>
      offers db' =
        map (\<lambda>x. if id_offer x = offer_id then x\<lparr>offer_status := ''on_progress''\<rparr> else x)
          (offers db))
   \<and> ''on_progress'' \<notin> range OfferStatus_value
   \<and> ((\<forall>r. fst (POST db now new_id request offer_id) \<noteq> respondWithSuccess r) \<longrightarrow>
        offers (snd (POST db now new_id request offer_id)) = offers db)
   \<and> offers (snd (DELETE db request offer_id)) = offers db
   \<and> offers (snd (PATCH db request offer_id)) = offers db"
proof (intro conjI impI)
  assume "POST db now new_id request offer_id = (respondWithSuccess r, db')"
  from POST_success_effect [OF this] obtain user body where
    db': "db' = set_on_progress
              (db\<lparr>offer_applicants := offer_applicants db @
                 [payload.extend (destructured body)
                    \<lparr>id_applicant = new_id, applicant_status = PENDING,
                     customer = user, offer = offer_id\<rparr>]\<rparr>) offer_id"
    by blast
  show "offers db' =
        map (\<lambda>x. if id_offer x = offer_id then x\<lparr>offer_status := ''on_progress''\<rparr> else x)
          (offers db)"
    unfolding db' offers_set_on_progress by simp
next
  show "''on_progress'' \<notin> range OfferStatus_value"
    unfolding OfferStatus_values by simp
next
  assume n: "\<forall>r. fst (POST db now new_id request offer_id) \<noteq> respondWithSuccess r"
  from POST_failure_offers [OF n]
  show "offers (snd (POST db now new_id request offer_id)) = offers db"
    by simp
qed (rule DELETE_offers, rule PATCH_offers)

theorem apply_route_writes_on_progress_witness:
  "POST store_O 0 ''app-A'' (request_of ''A'') ''O'' =
     (respondWithSuccess \<lparr>success = True, id_returned = ''app-A''\<rparr>, store_after ''A'' ''app-A'')
   \<and> offers (store_after ''A'' ''app-A'') =
        map (\<lambda>x. if id_offer x = ''O'' then x\<lparr>offer_status := ''on_progress''\<rparr> else x)
          (offers store_O)
   \<and> (\<forall>r. fst (POST (store_after ''A'' ''app-A'') 1 ''app-B'' (request_of ''B'') ''O'') \<noteq>
          respondWithSuccess r)
   \<and> offers (snd (POST (store_after ''A'' ''app-A'') 1 ''app-B'' (request_of ''B'') ''O'')) =
       offers (store_after ''A'' ''app-A'')"
proof -
  have v: "valid_customer_call (request_of ''B'') ''O'' ''B''"
    by (simp add: valid_customer_call_request_of)
  have n: "\<forall>r. fst (POST (store_after ''A'' ''app-A'') 1 ''app-B'' (request_of ''B'') ''O'') \<noteq>
          respondWithSuccess r"
    unfolding POST_valid_call [OF v] select_available_offer_store_after by simp
  from apply_route_writes_on_progress
         [of store_O 0 "''app-A''" "request_of ''A''" "''O''"
             "\<lparr>success = True, id_returned = ''app-A''\<rparr>" "store_after ''A'' ''app-A''"]
       apply_route_writes_on_progress
         [of "store_after ''A'' ''app-A''" 1 "''app-B''" "request_of ''B''" "''O''"]
       POST_store_O [of "''app-A''" "''A''"] n
  show ?thesis by blast
qed

section \<open>Concurrent calls of POST\<close>

lemma POST_enter_valid:
  assumes "valid_customer_call request offer_id user"
  shows "POST_enter request offer_id =
           at_select_offer (destructured (the (json_body request)))
             \<lparr>userId = user, role = ''customer''\<rparr>"
proof -
  from assms obtain body where b: "json_body request = Some body" "body \<noteq> JNull"
    "body \<noteq> JUndefined" "safeParse body offer_id = Inr (destructured body)"
    "verifyBearerToken request = Some \<lparr>userId = user, role = ''customer''\<rparr>"
    by (rule valid_customer_call_D)
  show ?thesis
    unfolding POST_enter_def by (simp add: b)
qed

lemma POST_enter_not_valid:
  assumes "\<not> (\<exists>user. valid_customer_call request offer_id user)"
  shows "POST_enter request offer_id = responded (fst (POST db now new_id request offer_id))"
proof (cases "json_body request")
  case None
  then show ?thesis by (simp add: POST_def POST_enter_def)
next
  case (Some body)
  show ?thesis
  proof (cases "body = JNull \<or> body = JUndefined")
    case True
    with Some show ?thesis by (simp add: POST_def POST_enter_def)
  next
    case nn: False
    show ?thesis
    proof (cases "schema_issues body offer_id = []")
      case False
      with Some nn show ?thesis by (simp add: POST_def POST_enter_def safeParse_def)
    next
      case ok: True
      show ?thesis
      proof (cases "bearer request")
        case None
        with Some nn ok show ?thesis
          by (simp add: POST_def POST_enter_def safeParse_def verifyBearerToken_def)
      next
        case (Some a)
        with assms \<open>json_body request = Some body\<close> nn ok
        have "role a \<noteq> ''customer''"
          by (cases a) (auto simp: valid_customer_call_def)
        with Some \<open>json_body request = Some body\<close> nn ok show ?thesis
          by (simp add: POST_def POST_enter_def safeParse_def verifyBearerToken_def)
      qed
    qed
  qed
qed

text \<open>
  Run alone, the four statements of a call give the response and the store of \<open>POST\<close>:
  the stepwise model is the handler.
\<close>

lemma POST_alone:
  "interleave now offer_id id1 id2 [True, True, True, True] (POST_enter request offer_id, pc2, db) =
     (responded (fst (POST db now id1 request offer_id)), pc2,
      snd (POST db now id1 request offer_id))"
proof (cases "\<exists>user. valid_customer_call request offer_id user")
  case False
  from POST_not_valid [OF False, of db now id1]
  have "snd (POST db now id1 request offer_id) = db" by blast
  then show ?thesis
    by (simp add: POST_enter_not_valid [OF False, of db now id1])
next
  case True
  then obtain user where v: "valid_customer_call request offer_id user" by blast
  show ?thesis
    unfolding POST_enter_valid [OF v] POST_valid_call [OF v]
    by (simp add: executeTakeFirst_case insert_application_def)
qed

lemma POST_enter_request_of:
  "POST_enter (request_of user) ''O'' =
     at_select_offer (destructured body_ok) \<lparr>userId = user, role = ''customer''\<rparr>"
  unfolding POST_enter_valid [OF valid_customer_call_request_of [of "''O''" user, simplified]]
  by (simp add: request_of_def)

text \<open>
  Claim C2 at its failing input. Customer \<open>''A''\<close> sends the same valid apply call twice
  on the available offer \<open>''O''\<close>, and the store runs the statements of the two calls in
  turn. Both duplicate checks run before either insert. Where the store has no unique
  constraint on customer and offer, both calls succeed and two \<open>PENDING\<close> applications
  of \<open>''A''\<close> on \<open>''O''\<close> exist. Where it has one, the second insert throws and the
  second call is answered with the server error (500), not with a conflict. Either way the
  check and the insert are two statements.
\<close>

theorem concurrent_applies_both_insert:
  "interleave 0 ''O'' ''app-1'' ''app-2'' [True, False, True, False, True, False, True, False]
     (POST_enter (request_of ''A'') ''O'', POST_enter (request_of ''A'') ''O'', store_O) =
     (responded (respondWithSuccess \<lparr>success = True, id_returned = ''app-1''\<rparr>),
      responded (respondWithSuccess \<lparr>success = True, id_returned = ''app-2''\<rparr>),
      (store_after ''A'' ''app-1'')
        \<lparr>offer_applicants := [application_of ''A'' ''app-1'', application_of ''A'' ''app-2'']\<rparr>)
   \<and> customer (application_of ''A'' ''app-1'') = customer (application_of ''A'' ''app-2'')
   \<and> offer (application_of ''A'' ''app-1'') = offer (application_of ''A'' ''app-2'')
   \<and> interleave 0 ''O'' ''app-1'' ''app-2'' [True, False, True, False, True, False, True, False]
     (POST_enter (request_of ''A'') ''O'', POST_enter (request_of ''A'') ''O'',
      store_O\<lparr>unique_customer_offer := True\<rparr>) =
     (responded (respondWithSuccess \<lparr>success = True, id_returned = ''app-1''\<rparr>),
      responded respondWithServerError,
      (store_after ''A'' ''app-1'')\<lparr>unique_customer_offer := True\<rparr>)"
  unfolding POST_enter_request_of
  by (simp add: store_O_def offer_O_def store_after_def application_of_def
      select_available_offer_def select_application_def insert_application_def
      set_on_progress_def payload.defs)

end
